theory Spec2Isabelle
  imports Main
begin

section \<open>The Pocket API client (pocket.go)\<close>

text \<open>
  Go strings are byte sequences, modelled as \<open>string\<close> (lists of 8-bit characters).
  A Go \<open>error\<close> result is \<open>error option\<close> (\<open>None\<close> is nil); a Go
  \<open>(T, error)\<close> result is \<open>error + T\<close> with \<open>Inl\<close> the error. Every method of
  the package is a state-passing function over the world outside the process (the
  round trips made so far) and over the receiver object behind the pointer \<open>c\<close>,
  which is not nil.
\<close>

subsection \<open>Errors\<close>

text \<open>
  \<open>New msg\<close> is \<open>errors.New(msg)\<close> (also \<open>fmt.Errorf\<close> without verbs),
  \<open>Join e1 e2\<close> is \<open>errors.Join(e1, e2)\<close> of two non-nil errors,
  \<open>EscapeError s\<close> is the error type of that name in net/url, and
  \<open>UrlError op url err\<close> is \<open>&url.Error{Op: op, URL: url, Err: err}\<close>, the form in
  which \<open>http.Client.Do\<close> reports every failure.
\<close>

datatype error =
  New string
| Join error error
| EscapeError string
| UrlError string string error

subsection \<open>Constants\<close>

definition host :: string where
  "host = ''https://getpocket.com/v3''"

definition authorizeURL :: string where
  "authorizeURL = ''https://getpocket.com/auth/authorize?request_token=%s&redirect_uri=%s''"

definition endpointRequestToken :: string where
  "endpointRequestToken = ''/oauth/request''"

definition endpointAuthorize :: string where
  "endpointAuthorize = ''/oauth/authorize''"

definition endpointAdd :: string where
  "endpointAdd = ''/add''"

definition xErrorHeader :: string where
  "xErrorHeader = ''X-Error''"

text \<open>\<open>time.Duration\<close> counts nanoseconds; \<open>time.Second\<close> is the constant \<open>1e9\<close>.\<close>

definition time_Second :: int where
  "time_Second = 1000000000"

definition defaultTimeout :: int where
  "defaultTimeout = 5 * time_Second"

definition MethodPost :: string where
  "MethodPost = ''POST''"

definition StatusOK :: int where
  "StatusOK = 200"

subsection \<open>Request structures and the input of Add\<close>

text \<open>
  The three wire structures all have a field \<open>ConsumerKey\<close>; the fields carry a prefix
  here because record fields share one name space.
\<close>

record requestTokenRequest =
  rt_ConsumerKey :: string
  rt_RedirectURI :: string

record accessTokenRequest =
  at_ConsumerKey :: string
  at_Code :: string

record addRequest =
  add_Url :: string
  add_Title :: string
  add_Tags :: string
  add_TweetId :: int
  add_ConsumerKey :: string
  add_AccessToken :: string

record AddInput =
  URL :: string
  Title :: string
  Tags :: "string list"
  AccessToken :: string

text \<open>The values that reach the \<open>body interface{}\<close> parameter of \<open>doHTTP\<close>.\<close>

datatype payload =
  OfRequestToken requestTokenRequest
| OfAccessToken accessTokenRequest
| OfAdd addRequest

subsection \<open>Library functions the package calls\<close>

text \<open>\<open>strings.Join(elems, sep)\<close>.\<close>

fun strings_Join :: "string list \<Rightarrow> string \<Rightarrow> string" where
  "strings_Join [] sep = []"
| "strings_Join [x] sep = x"
| "strings_Join (x # y # ys) sep = x @ sep @ strings_Join (y # ys) sep"

text \<open>
  \<open>fmt.Sprintf\<close> for string operands and the verbs \<open>%s\<close> and \<open>%v\<close>, the only
  ones in this package's format strings: each verb is replaced by the next operand,
  byte for byte; \<open>%%\<close> is a percent sign; a verb with no operand left prints
  \<open>%!s(MISSING)\<close>, a lone \<open>%\<close> at the end prints \<open>%!(NOVERB)\<close>, and operands left
  over are reported after the text. Flags, widths and other verbs are outside the
  fragment (their bytes are copied).
\<close>

definition Sprintf_extra :: "string list \<Rightarrow> string" where
  "Sprintf_extra args =
     (if args = [] then []
      else ''%!(EXTRA '' @ strings_Join (map (\<lambda>a. ''string='' @ a) args) '', '' @ '')'')"

fun Sprintf :: "string \<Rightarrow> string list \<Rightarrow> string" where
  "Sprintf [] args = Sprintf_extra args"
| "Sprintf [c] args =
     (if c = CHR ''%'' then ''%!(NOVERB)'' else [c]) @ Sprintf_extra args"
| "Sprintf (c # d # fmt) args =
     (if c = CHR ''%'' \<and> (d = CHR ''s'' \<or> d = CHR ''v'') then
        (case args of
           [] \<Rightarrow> ''%!'' @ [d] @ ''(MISSING)'' @ Sprintf fmt []
         | a # as \<Rightarrow> a @ Sprintf fmt as)
      else if c = CHR ''%'' \<and> d = CHR ''%'' then CHR ''%'' # Sprintf fmt args
      else c # Sprintf (d # fmt) args)"

text \<open>
  \<open>strings.Cut(s, sep)\<close> for a one-byte separator: the text before the first
  separator, the text after it, and whether there was one.
\<close>

definition strings_Cut :: "string \<Rightarrow> char \<Rightarrow> string \<times> string \<times> bool" where
  "strings_Cut s sep =
     (takeWhile (\<lambda>c. c \<noteq> sep) s, drop 1 (dropWhile (\<lambda>c. c \<noteq> sep) s), sep \<in> set s)"

text \<open>The helpers \<open>ishex\<close> and \<open>unhex\<close> of net/url.\<close>

definition byte_in :: "char \<Rightarrow> char \<Rightarrow> char \<Rightarrow> bool" where
  \<comment> \<open>the byte comparison \<open>lo <= c && c <= hi\<close>\<close>
  "byte_in lo hi c = ((of_char lo :: nat) \<le> of_char c \<and> (of_char c :: nat) \<le> of_char hi)"

definition ishex :: "char \<Rightarrow> bool" where
  "ishex c =
     (byte_in CHR ''0'' CHR ''9'' c \<or> byte_in CHR ''a'' CHR ''f'' c
      \<or> byte_in CHR ''A'' CHR ''F'' c)"

definition unhex :: "char \<Rightarrow> nat" where
  "unhex c =
     (if byte_in CHR ''0'' CHR ''9'' c then of_char c - of_char CHR ''0''
      else if byte_in CHR ''a'' CHR ''f'' c then of_char c - of_char CHR ''a'' + 10
      else if byte_in CHR ''A'' CHR ''F'' c then of_char c - of_char CHR ''A'' + 10
      else 0)"

text \<open>
  \<open>url.QueryUnescape\<close>, that is \<open>unescape\<close> in the mode \<open>encodeQueryComponent\<close>.
  The first loop checks every percent sign and fails at the first one that is not
  followed by two hexadecimal digits, with at most three bytes of the text from
  there; the second loop builds the result, a plus sign becoming a space.
\<close>

fun unescape_check :: "string \<Rightarrow> error option" where
  "unescape_check [] = None"
| "unescape_check (c # cs) =
     (if c = CHR ''%'' then
        (case cs of
           a # b # rest \<Rightarrow>
             if ishex a \<and> ishex b then unescape_check rest
             else Some (EscapeError (take 3 (c # cs)))
         | _ \<Rightarrow> Some (EscapeError (take 3 (c # cs))))
      else unescape_check cs)"

text \<open>
  The second loop runs only on a text the first loop has accepted, where every percent
  sign has its two digits; the last case of the inner \<open>case\<close> is never reached.
\<close>

fun unescape_build :: "string \<Rightarrow> string" where
  "unescape_build [] = []"
| "unescape_build (c # cs) =
     (if c = CHR ''%'' then
        (case cs of
           a # b # rest \<Rightarrow> char_of (unhex a * 16 + unhex b) # unescape_build rest
         | _ \<Rightarrow> [])
      else if c = CHR ''+'' then CHR '' '' # unescape_build cs
      else c # unescape_build cs)"

definition QueryUnescape :: "string \<Rightarrow> error + string" where
  "QueryUnescape s =
     (case unescape_check s of
        Some err \<Rightarrow> Inl err
      | None \<Rightarrow>
          if CHR ''%'' \<notin> set s \<and> CHR ''+'' \<notin> set s then Inr s
          else Inr (unescape_build s))"

text \<open>
  \<open>url.Values\<close> is \<open>map[string][]string\<close>. \<open>Values.Get\<close> is the first value of
  the key, or the empty string.
\<close>

type_synonym Values = "string \<rightharpoonup> string list"

definition Values_Get :: "Values \<Rightarrow> string \<Rightarrow> string" where
  "Values_Get v key =
     (case v key of None \<Rightarrow> [] | Some [] \<Rightarrow> [] | Some (x # _) \<Rightarrow> x)"

text \<open>
  The loop of \<open>parseQuery\<close> in net/url: the query is cut at each ampersand; a piece
  with a semicolon sets the error; an empty piece is skipped; the piece is cut at its
  first equals sign and both halves are unescaped, the first failure being kept; the
  value is appended to the key's list. The loop goes on after an error.
\<close>

function parseQuery :: "Values \<Rightarrow> string \<Rightarrow> error option \<Rightarrow> Values \<times> error option" where
  "parseQuery m query err =
     (if query = [] then (m, err)
      else
        (case strings_Cut query CHR ''&'' of
           (key, rest, _) \<Rightarrow>
             if CHR '';'' \<in> set key then
               parseQuery m rest (Some (New ''invalid semicolon separator in query''))
             else if key = [] then parseQuery m rest err
             else
               (case strings_Cut key CHR ''='' of
                  (k, v, _) \<Rightarrow>
                    (case QueryUnescape k of
                       Inl err1 \<Rightarrow> parseQuery m rest (if err = None then Some err1 else err)
                     | Inr k' \<Rightarrow>
                         (case QueryUnescape v of
                            Inl err1 \<Rightarrow>
                              parseQuery m rest (if err = None then Some err1 else err)
                          | Inr v' \<Rightarrow>
                              parseQuery
                                (m(k' \<mapsto> (case m k' of None \<Rightarrow> [] | Some vs \<Rightarrow> vs) @ [v']))
                                rest err)))))"
  by pat_completeness auto
termination
  by (relation "measure (\<lambda>(m, query, err). length query)")
    (auto simp: strings_Cut_def neq_Nil_conv
      intro: le_imp_less_Suc [OF order_trans [OF diff_le_self length_dropWhile_le]])

text \<open>
  \<open>url.ParseQuery\<close> returns the map together with the error. Toolchains that carry
  the limit on query parameters refuse, before the loop, a query with more
  parameters than the limit allows (10000 unless the \<open>GODEBUG\<close> setting
  \<open>urlmaxqueryparams\<close> says otherwise), the parameters being counted as the
  ampersands plus one; older toolchains have no limit. The limit belongs to the
  environment of the process: \<open>None\<close> when there is none.
\<close>

definition url_ParseQuery :: "nat option \<Rightarrow> string \<Rightarrow> Values \<times> error option" where
  "url_ParseQuery limit query =
     (if (case limit of None \<Rightarrow> False | Some n \<Rightarrow> n < count_list query CHR ''&'' + 1)
      then (Map.empty, Some (New ''number of URL query parameters exceeded limit''))
      else parseQuery Map.empty query None)"

text \<open>
  \<open>json.Marshal\<close> of the three request structures. The document is kept as a tree:
  one member per field, named by the field's \<open>json\<close> tag, in the order of
  declaration. Strings and integers always encode, so the call cannot fail on these
  types; the escaping of the bytes inside a string literal is not modelled.
\<close>

datatype json = JString string | JNumber int | JObject "(string \<times> json) list"

fun json_Marshal :: "payload \<Rightarrow> error + json" where
  "json_Marshal (OfRequestToken r) =
     Inr (JObject [(''consumer_key'', JString (rt_ConsumerKey r)),
                   (''redirectUri'', JString (rt_RedirectURI r))])"
| "json_Marshal (OfAccessToken r) =
     Inr (JObject [(''consumer_key'', JString (at_ConsumerKey r)),
                   (''code'', JString (at_Code r))])"
| "json_Marshal (OfAdd r) =
     Inr (JObject [(''url'', JString (add_Url r)),
                   (''title'', JString (add_Title r)),
                   (''tags'', JString (add_Tags r)),
                   (''tweet_id'', JNumber (add_TweetId r)),
                   (''consumer_key'', JString (add_ConsumerKey r)),
                   (''access_token'', JString (add_AccessToken r))])"

text \<open>
  A \<open>context.Context\<close> is nil or a live context. Its deadline and cancellation act
  only through what the round tripper answers.
\<close>

datatype context_Context = NilContext | LiveContext nat

text \<open>
  \<open>http.Header\<close> is \<open>map[string][]string\<close>. Both keys this package uses,
  \<open>Content-Type\<close> and \<open>X-Error\<close>, are in canonical form already, so \<open>Add\<close> and
  \<open>Get\<close> use the key as it is.
\<close>

type_synonym Header = "string \<rightharpoonup> string list"

definition Header_Add :: "Header \<Rightarrow> string \<Rightarrow> string \<Rightarrow> Header" where
  "Header_Add h key v = h(key \<mapsto> (case h key of None \<Rightarrow> [] | Some vs \<Rightarrow> vs) @ [v])"

definition Header_Get :: "Header \<Rightarrow> string \<Rightarrow> string" where
  "Header_Get h key =
     (case h key of None \<Rightarrow> [] | Some [] \<Rightarrow> [] | Some (x # _) \<Rightarrow> x)"

record request =
  Method :: string
  RequestURL :: string
  ReqHeader :: Header
  ReqBody :: "json option"
  Ctx :: context_Context

text \<open>
  A response body is an \<open>io.ReadCloser\<close>: the bytes it delivers, and the error that
  ends the reading when it is not the end of the data.
\<close>

datatype reader = Reader string "error option"

record response =
  StatusCode :: int
  Header :: Header
  Body :: reader

fun io_ReadAll :: "reader \<Rightarrow> error + string" where
  "io_ReadAll (Reader bs None) = Inr bs"
| "io_ReadAll (Reader bs (Some err)) = Inl err"

text \<open>
  \<open>http.NewRequestWithContext\<close>: the method and the URL of this package are
  constants that parse, so the only failure left is a nil context. The body is a
  \<open>*bytes.Buffer\<close>, for which the request also gets its \<open>GetBody\<close>: the body can
  be sent again.
\<close>

definition http_NewRequestWithContext ::
  "context_Context \<Rightarrow> string \<Rightarrow> string \<Rightarrow> json \<Rightarrow> error + request" where
  "http_NewRequestWithContext ctx method url body =
     (if ctx = NilContext then Inl (New ''net/http: nil Context'')
      else Inr \<lparr>Method = method, RequestURL = url, ReqHeader = Map.empty,
                ReqBody = Some body, Ctx = ctx\<rparr>)"

subsection \<open>The client and the world\<close>

text \<open>
  A round tripper answers a request with a transport error or with a response. An
  \<open>http.Client\<close> has a \<open>Transport\<close> (nil stands for the process-wide
  \<open>http.DefaultTransport\<close>) and a \<open>Timeout\<close>.
\<close>

type_synonym roundTripper = "request \<Rightarrow> error + response"

record http_Client =
  Transport :: "roundTripper option"
  Timeout :: int

record Client =
  client :: http_Client
  consumerKey :: string

text \<open>
  The world a call runs in: the environment of the process and the log of what the
  process has done on the network, one entry for each request handed to a round
  tripper and one for each response body closed. The environment is the default
  transport (the real network), the toolchain's limit on query parameters, and what
  \<open>http.Client.Do\<close> makes of a \<open>Location\<close> header: from the request that was
  answered and the header's value, the URL of the next request (the value resolved
  against the URL of that request, \<open>url.URL.Parse\<close>) and its header (the initial
  header as the toolchain copies it, with a \<open>Referer\<close>), or the error when the
  value does not parse. Reference resolution and the copying of headers are not
  modelled: \<open>NextHop\<close> stands for them, and every statement holds whatever it is.
\<close>

datatype event = RoundTrip request | BodyClose

record world =
  DefaultTransport :: roundTripper
  NextHop :: "request \<Rightarrow> string \<Rightarrow> error + string \<times> Header"
  urlmaxqueryparams :: "nat option"
  events :: "event list"

definition roundTripper_of :: "http_Client \<Rightarrow> world \<Rightarrow> roundTripper" where
  "roundTripper_of hc w = (case Transport hc of None \<Rightarrow> DefaultTransport w | Some rt \<Rightarrow> rt)"

text \<open>
  \<open>urlErrorOp\<close> of net/http: the method with its first byte kept and the rest in
  lower case (\<open>Post\<close>, \<open>Get\<close>).
\<close>

definition toLower :: "char \<Rightarrow> char" where
  "toLower c = (if byte_in CHR ''A'' CHR ''Z'' c then char_of (of_char c + (32 :: nat)) else c)"

definition urlErrorOp :: "string \<Rightarrow> string" where
  "urlErrorOp method =
     (case method of [] \<Rightarrow> ''Get'' | c # cs \<Rightarrow> c # map toLower cs)"

text \<open>
  \<open>redirectBehavior\<close> of net/http, for an initial request that has its \<open>GetBody\<close>
  (every request of this package has): the method of the next request, whether the
  answer is a redirect, and whether the body goes out again.
\<close>

definition redirectBehavior :: "string \<Rightarrow> response \<Rightarrow> string \<times> bool \<times> bool" where
  "redirectBehavior reqMethod resp =
     (if StatusCode resp = 301 \<or> StatusCode resp = 302 \<or> StatusCode resp = 303 then
        (if reqMethod \<noteq> ''GET'' \<and> reqMethod \<noteq> ''HEAD'' then ''GET'' else reqMethod,
         True, False)
      else if StatusCode resp = 307 \<or> StatusCode resp = 308 then (reqMethod, True, True)
      else ([], False, False))"

text \<open>
  One pass of the loop of \<open>http.Client.do\<close>, for a client whose \<open>CheckRedirect\<close> and
  \<open>Jar\<close> are nil, as the clients of this package and of its tests are. The request
  goes to the round tripper; a transport error comes back wrapped; an answer that is
  no redirect, or a redirect without \<open>Location\<close>, is the result; otherwise the body
  of the answer is closed and the next request is made ready: it has the method
  \<open>redirectBehavior\<close> gives, the initial body or none, the initial context, and the
  URL and header of \<open>NextHop\<close>. The client's timer acts only through what the round
  tripper and the body's reader answer.
\<close>

datatype hop = Failed error | Final response | Next string request

definition client_hop :: "http_Client \<Rightarrow> request \<Rightarrow> request \<Rightarrow> world \<Rightarrow> hop \<times> world" where
  "client_hop hc ireq req w =
     (let w1 = w\<lparr>events := events w @ [RoundTrip req]\<rparr>
      in case roundTripper_of hc w req of
           Inl err \<Rightarrow> (Failed (UrlError (urlErrorOp (Method ireq)) (RequestURL req) err), w1)
         | Inr resp \<Rightarrow>
             (case redirectBehavior (Method req) resp of
                (redirectMethod, shouldRedirect, includeBody) \<Rightarrow>
                  if \<not> shouldRedirect then (Final resp, w1)
                  else
                    (let loc = Header_Get (Header resp) ''Location''
                     in if loc = [] then (Final resp, w1)
                        else
                          (let w2 = w1\<lparr>events := events w1 @ [BodyClose]\<rparr>
                           in case NextHop w req loc of
                                Inl err \<Rightarrow>
                                  (Failed (UrlError (urlErrorOp (Method ireq))
                                             (RequestURL req) err), w2)
                              | Inr (u, h) \<Rightarrow>
                                  (Next loc
                                     \<lparr>Method = redirectMethod, RequestURL = u, ReqHeader = h,
                                      ReqBody = (if includeBody then ReqBody ireq else None),
                                      Ctx = Ctx ireq\<rparr>, w2)))))"

text \<open>
  The loop itself. The default redirect policy refuses the next request once ten
  have been made, so the first argument, the number of requests that may still follow
  the present one, starts at nine.
\<close>

fun client_do :: "nat \<Rightarrow> http_Client \<Rightarrow> request \<Rightarrow> request \<Rightarrow> world \<Rightarrow> (error + response) \<times> world" where
  "client_do 0 hc ireq req w =
     (case client_hop hc ireq req w of
        (Failed err, w') \<Rightarrow> (Inl err, w')
      | (Final resp, w') \<Rightarrow> (Inr resp, w')
      | (Next loc req', w') \<Rightarrow>
          (Inl (UrlError (urlErrorOp (Method ireq)) loc (New ''stopped after 10 redirects'')),
           w'))"
| "client_do (Suc left) hc ireq req w =
     (case client_hop hc ireq req w of
        (Failed err, w') \<Rightarrow> (Inl err, w')
      | (Final resp, w') \<Rightarrow> (Inr resp, w')
      | (Next loc req', w') \<Rightarrow> client_do left hc ireq req' w')"

definition http_Client_Do ::
  "http_Client \<Rightarrow> request \<Rightarrow> world \<Rightarrow> (error + response) \<times> world" where
  "http_Client_Do hc req w = client_do 9 hc req req w"

text \<open>The three components of what a method leaves behind.\<close>

abbreviation returned :: "'a \<times> Client \<times> world \<Rightarrow> 'a" where
  "returned t \<equiv> fst t"

abbreviation receiver :: "'a \<times> Client \<times> world \<Rightarrow> Client" where
  "receiver t \<equiv> fst (snd t)"

abbreviation after :: "'a \<times> Client \<times> world \<Rightarrow> world" where
  "after t \<equiv> snd (snd t)"

subsection \<open>The package\<close>

definition validate :: "AddInput \<Rightarrow> error option" where
  "validate i =
     (if URL i = [] then Some (New ''required URL values is empty'')
      else if AccessToken i = [] then Some (New ''access token is empty'')
      else None)"

definition generateRequest :: "AddInput \<Rightarrow> string \<Rightarrow> addRequest" where
  "generateRequest i key =
     \<lparr>add_Url = URL i,
      add_Title = Title i,
      add_Tags = strings_Join (Tags i) '','',
      add_TweetId = 0,
      add_ConsumerKey = key,
      add_AccessToken = AccessToken i\<rparr>"

definition NewClient :: "string \<Rightarrow> world \<Rightarrow> (error + Client) \<times> world" where
  "NewClient key w =
     (if key = [] then (Inl (New ''Consumer key is empty''), w)
      else
        (Inr \<lparr>client = \<lparr>Transport = None, Timeout = defaultTimeout\<rparr>,
              consumerKey = key\<rparr>, w))"

text \<open>
  \<open>doHTTP\<close>. The deferred \<open>resp.Body.Close()\<close> runs on every return after a
  response has arrived; nothing else touches the network after that point, so its
  log entry is written where the \<open>defer\<close> stands. When \<open>Do\<close> fails, nothing is
  deferred.
\<close>

definition doHTTP ::
  "context_Context \<Rightarrow> string \<Rightarrow> payload \<Rightarrow> Client \<Rightarrow> world \<Rightarrow> (error + Values) \<times> Client \<times> world" where
  "doHTTP ctx endpoint body c w =
     (case json_Marshal body of
        Inl err \<Rightarrow> (Inl (Join err (New ''Failed to marshal body'')), c, w)
      | Inr b \<Rightarrow>
          (case http_NewRequestWithContext ctx MethodPost (host @ endpoint) b of
             Inl err \<Rightarrow> (Inl (Join err (New ''Failed to create request'')), c, w)
           | Inr req0 \<Rightarrow>
               (let req = req0\<lparr>ReqHeader :=
                            Header_Add (ReqHeader req0) ''Content-Type''
                              ''application/json; charset=UTF8''\<rparr>
                in case http_Client_Do (client c) req w of
                     (Inl err, w1) \<Rightarrow>
                       (Inl (Join err (New ''Failed to send http request...'')), c, w1)
                   | (Inr resp, w1) \<Rightarrow>
                       (let w2 = w1\<lparr>events := events w1 @ [BodyClose]\<rparr>
                        in if StatusCode resp \<noteq> StatusOK then
                             (Inl (New (Sprintf ''API Error : %v''
                                          [Header_Get (Header resp) xErrorHeader])), c, w2)
                           else
                             (case io_ReadAll (Body resp) of
                                Inl err \<Rightarrow>
                                  (Inl (Join err (New ''Failed read response'')), c, w2)
                              | Inr respB \<Rightarrow>
                                  (case url_ParseQuery (urlmaxqueryparams w) respB of
                                     (values, Some err) \<Rightarrow>
                                       (Inl (Join err
                                          (New ''Failed to parse response values'')), c, w2)
                                   | (values, None) \<Rightarrow> (Inr values, c, w2)))))))"

definition GetRequestToken ::
  "context_Context \<Rightarrow> string \<Rightarrow> Client \<Rightarrow> world \<Rightarrow> (error + string) \<times> Client \<times> world" where
  "GetRequestToken ctx redirectUri c w =
     (if redirectUri = [] then (Inl (New ''ReditectUri is empty''), c, w)
      else
        (let inp = \<lparr>rt_ConsumerKey = consumerKey c, rt_RedirectURI = redirectUri\<rparr>
         in case doHTTP ctx endpointRequestToken (OfRequestToken inp) c w of
              (Inl err, c', w') \<Rightarrow> (Inl err, c', w')
            | (Inr values, c', w') \<Rightarrow>
                (let requestToken = Values_Get values ''code''
                 in if requestToken = [] then
                      (Inl (New ''Empty request token in API response''), c', w')
                    else (Inr requestToken, c', w'))))"

definition GetAuthorizationURL ::
  "context_Context \<Rightarrow> string \<Rightarrow> string \<Rightarrow> Client \<Rightarrow> world \<Rightarrow> (error + string) \<times> Client \<times> world" where
  "GetAuthorizationURL ctx requestToken redirectUrl c w =
     (if requestToken = [] then (Inl (New ''RequestToken is empty''), c, w)
      else if redirectUrl = [] then (Inl (New ''RedirectUrl is empty''), c, w)
      else (Inr (Sprintf authorizeURL [requestToken, redirectUrl]), c, w))"

definition Add ::
  "context_Context \<Rightarrow> AddInput \<Rightarrow> Client \<Rightarrow> world \<Rightarrow> error option \<times> Client \<times> world" where
  "Add ctx input c w =
     (case validate input of
        Some err \<Rightarrow> (Some err, c, w)
      | None \<Rightarrow>
          (let inp = generateRequest input (consumerKey c)
           in case doHTTP ctx endpointAdd (OfAdd inp) c w of
                (Inl err, c', w') \<Rightarrow> (Some err, c', w')
              | (Inr values, c', w') \<Rightarrow> (None, c', w')))"

definition GetAccessToken ::
  "context_Context \<Rightarrow> string \<Rightarrow> Client \<Rightarrow> world \<Rightarrow> (error + string) \<times> Client \<times> world" where
  "GetAccessToken ctx requestToken c w =
     (if requestToken = [] then (Inl (New ''RequestToken is empty''), c, w)
      else
        (let inp = \<lparr>at_ConsumerKey = consumerKey c, at_Code = requestToken\<rparr>
         in case doHTTP ctx endpointAuthorize (OfAccessToken inp) c w of
              (Inl err, c', w') \<Rightarrow> (Inl err, c', w')
            | (Inr values, c', w') \<Rightarrow>
                (let accessToken = Values_Get values ''code''
                 in if accessToken = [] then
                      (Inl (New ''Empty access token in API response''), c', w')
                    else (Inr accessToken, c', w'))))"

subsection \<open>The test double (pocket\_test.go)\<close>

text \<open>
  \<open>newClient(t, statusCode, path, body)\<close> builds a client whose transport answers
  every request with the given status and body, no header and no error, and whose
  consumer key is \<open>key\<close>. The two assertions of the stub on the request only report
  to the test and are left out; the timeout is Go's zero value.
\<close>

definition newClient :: "int \<Rightarrow> string \<Rightarrow> string \<Rightarrow> Client" where
  "newClient statusCode path body =
     \<lparr>client =
        \<lparr>Transport = Some (\<lambda>r. Inr \<lparr>StatusCode = statusCode, Header = Map.empty,
                                     Body = Reader body None\<rparr>),
         Timeout = 0\<rparr>,
      consumerKey = ''key''\<rparr>"

subsection \<open>Notions used by the statements\<close>

text \<open>
  The request \<open>doHTTP\<close> hands to the round tripper for an endpoint and a document:
  a POST to the host followed by the endpoint, with the one content type header.
\<close>

definition postRequest :: "context_Context \<Rightarrow> string \<Rightarrow> json \<Rightarrow> request" where
  "postRequest ctx endpoint b =
     \<lparr>Method = ''POST'', RequestURL = ''https://getpocket.com/v3'' @ endpoint,
      ReqHeader = [''Content-Type'' \<mapsto> [''application/json; charset=UTF8'']],
      ReqBody = Some b, Ctx = ctx\<rparr>"

text \<open>
  The answers \<open>http.Client.Do\<close> does not hand back but follows: a status of 301,
  302, 303, 307 or 308 together with a \<open>Location\<close> header.
\<close>

definition redirects :: "response \<Rightarrow> bool" where
  "redirects resp =
     ((StatusCode resp = 301 \<or> StatusCode resp = 302 \<or> StatusCode resp = 303
       \<or> StatusCode resp = 307 \<or> StatusCode resp = 308)
      \<and> Header_Get (Header resp) ''Location'' \<noteq> [])"

text \<open>
  A world in which nothing has happened yet and the network is down, with the query
  limit of the present toolchains. Its \<open>NextHop\<close> takes the \<open>Location\<close> as the
  next URL, which is what resolution gives for an absolute URL, and copies the header
  of the request with the URL of that request as \<open>Referer\<close>.
\<close>

definition quiet :: world where
  "quiet =
     \<lparr>DefaultTransport = (\<lambda>r. Inl (New ''no network'')),
      NextHop = (\<lambda>r loc. Inr (loc, (ReqHeader r)(''Referer'' \<mapsto> [RequestURL r]))),
      urlmaxqueryparams = Some 10000,
      events = []\<rparr>"


section \<open>Auxiliary facts\<close>

lemma Sprintf_authorizeURL:
  "Sprintf authorizeURL [a, b] =
     ''https://getpocket.com/auth/authorize?request_token='' @ a @ ''&redirect_uri='' @ b"
  by (simp add: authorizeURL_def Sprintf_extra_def)

lemma strings_Join_Cons:
  "strings_Join (t # ts) sep = t @ concat (map (\<lambda>x. sep @ x) ts)"
  by (induction ts arbitrary: t) simp_all

lemma client_hop_final:
  assumes "roundTripper_of hc w req = Inr resp" and "\<not> redirects resp"
  shows "client_hop hc ireq req w = (Final resp, w\<lparr>events := events w @ [RoundTrip req]\<rparr>)"
  using assms
  by (auto simp: client_hop_def redirects_def redirectBehavior_def Let_def)

lemma client_hop_events:
  "\<exists>es. snd (client_hop hc ireq req w) = w\<lparr>events := events w @ RoundTrip req # es\<rparr>"
  by (auto simp: client_hop_def Let_def split: sum.splits prod.splits)

lemma client_do_final:
  assumes "roundTripper_of hc w req = Inr resp" and "\<not> redirects resp"
  shows "client_do n hc ireq req w = (Inr resp, w\<lparr>events := events w @ [RoundTrip req]\<rparr>)"
  by (cases n) (simp_all add: client_hop_final [OF assms])

lemma client_do_events:
  "\<exists>es. snd (client_do n hc ireq req w) = w\<lparr>events := events w @ RoundTrip req # es\<rparr>"
proof (induction n arbitrary: req w)
  case 0
  obtain es where es: "snd (client_hop hc ireq req w) =
      w\<lparr>events := events w @ RoundTrip req # es\<rparr>"
    using client_hop_events by blast
  then show ?case
    by (cases "client_hop hc ireq req w") (auto split: hop.splits)
next
  case (Suc n)
  obtain es where es: "snd (client_hop hc ireq req w) =
      w\<lparr>events := events w @ RoundTrip req # es\<rparr>"
    using client_hop_events by blast
  show ?case
  proof (cases "client_hop hc ireq req w")
    case (Pair h w')
    with es have w': "w' = w\<lparr>events := events w @ RoundTrip req # es\<rparr>"
      by simp
    show ?thesis
    proof (cases h)
      case (Next loc req')
      obtain es' where "snd (client_do n hc ireq req' w') =
          w'\<lparr>events := events w' @ RoundTrip req' # es'\<rparr>"
        using Suc.IH by blast
      then have "snd (client_do n hc ireq req' w') =
          w\<lparr>events := events w @ RoundTrip req # (es @ RoundTrip req' # es')\<rparr>"
        by (simp add: w')
      with Pair Next show ?thesis
        by auto
    qed (use Pair w' in auto)
  qed
qed

lemma doHTTP_nil_context:
  "doHTTP NilContext endpoint p c w =
     (Inl (Join (New ''net/http: nil Context'') (New ''Failed to create request'')), c, w)"
  by (cases p) (simp_all add: doHTTP_def http_NewRequestWithContext_def)

lemma doHTTP_Do:
  assumes "ctx \<noteq> NilContext" and "json_Marshal p = Inr b"
  shows "doHTTP ctx endpoint p c w =
     (case http_Client_Do (client c) (postRequest ctx endpoint b) w of
        (Inl err, w1) \<Rightarrow> (Inl (Join err (New ''Failed to send http request...'')), c, w1)
      | (Inr resp, w1) \<Rightarrow>
          (if StatusCode resp \<noteq> 200 then
             Inl (New (''API Error : '' @ Header_Get (Header resp) ''X-Error''))
           else
             (case io_ReadAll (Body resp) of
                Inl err \<Rightarrow> Inl (Join err (New ''Failed read response''))
              | Inr respB \<Rightarrow>
                  (case snd (url_ParseQuery (urlmaxqueryparams w) respB) of
                     Some err \<Rightarrow> Inl (Join err (New ''Failed to parse response values''))
                   | None \<Rightarrow> Inr (fst (url_ParseQuery (urlmaxqueryparams w) respB)))),
           c, w1\<lparr>events := events w1 @ [BodyClose]\<rparr>))"
proof -
  have req: "http_NewRequestWithContext ctx MethodPost (host @ endpoint) b =
      Inr \<lparr>Method = ''POST'', RequestURL = ''https://getpocket.com/v3'' @ endpoint,
            ReqHeader = Map.empty, ReqBody = Some b, Ctx = ctx\<rparr>"
    using assms(1) by (simp add: http_NewRequestWithContext_def MethodPost_def host_def)
  have hdr: "Header_Add Map.empty ''Content-Type'' ''application/json; charset=UTF8'' =
      [''Content-Type'' \<mapsto> [''application/json; charset=UTF8'']]"
    by (simp add: Header_Add_def)
  show ?thesis
    by (simp add: doHTTP_def assms(2) req hdr postRequest_def
        Sprintf_extra_def StatusOK_def xErrorHeader_def Let_def
        split: sum.splits option.splits prod.splits)
qed

lemma doHTTP_request:
  assumes "ctx \<noteq> NilContext" and "json_Marshal p = Inr b"
    and "roundTripper_of (client c) w (postRequest ctx endpoint b) = Inr resp"
    and "\<not> redirects resp"
  shows "doHTTP ctx endpoint p c w =
     (if StatusCode resp \<noteq> 200 then
        Inl (New (''API Error : '' @ Header_Get (Header resp) ''X-Error''))
      else
        (case io_ReadAll (Body resp) of
           Inl err \<Rightarrow> Inl (Join err (New ''Failed read response''))
         | Inr respB \<Rightarrow>
             (case snd (url_ParseQuery (urlmaxqueryparams w) respB) of
                Some err \<Rightarrow> Inl (Join err (New ''Failed to parse response values''))
              | None \<Rightarrow> Inr (fst (url_ParseQuery (urlmaxqueryparams w) respB)))),
      c,
      w\<lparr>events := events w @ [RoundTrip (postRequest ctx endpoint b), BodyClose]\<rparr>)"
  by (simp add: doHTTP_Do [OF assms(1,2)] http_Client_Do_def client_do_final [OF assms(3,4)])

lemma doHTTP_events:
  assumes "ctx \<noteq> NilContext" and "json_Marshal p = Inr b"
  shows "\<exists>es. events (after (doHTTP ctx endpoint p c w)) =
           events w @ RoundTrip (postRequest ctx endpoint b) # es"
proof -
  obtain es where es: "snd (http_Client_Do (client c) (postRequest ctx endpoint b) w) =
      w\<lparr>events := events w @ RoundTrip (postRequest ctx endpoint b) # es\<rparr>"
    unfolding http_Client_Do_def using client_do_events by blast
  then show ?thesis
    by (cases "http_Client_Do (client c) (postRequest ctx endpoint b) w")
      (auto simp: doHTTP_Do [OF assms] split: sum.splits)
qed

lemma ok_not_redirects: "StatusCode resp = 200 \<Longrightarrow> \<not> redirects resp"
  by (simp add: redirects_def)

section \<open>The claims\<close>

text \<open>
  In the statements below, that the POST is answered with \<open>resp\<close> is the hypothesis
  that the client's round tripper returns the response \<open>resp\<close> for the request the
  operation sends; the context is then not nil, or no request would have been made.
  An answer with status 200 is no redirect, so it is the response \<open>http.Client.Do\<close>
  hands back to \<open>doHTTP\<close>.
\<close>

text \<open>
  C1. \<open>GetAccessToken\<close> takes the access token from the \<open>code\<close> field of the
  decoded response. When the request token is not empty and the POST to
  \<open>/oauth/authorize\<close> is answered with status 200 and a body that can be read, any
  token the call returns is the first value of \<open>code\<close> in the parsed body; if the
  body parses and that value is not empty the call returns it; and a body without a
  \<open>code\<close> field (one that sets only \<open>access_token\<close>, say) makes the call fail.
\<close>

theorem GetAccessToken_reads_code:
  assumes "requestToken \<noteq> []" and "ctx \<noteq> NilContext"
    and "roundTripper_of (client c) w
           (postRequest ctx endpointAuthorize
              (JObject [(''consumer_key'', JString (consumerKey c)),
                        (''code'', JString requestToken)])) = Inr resp"
    and "StatusCode resp = 200"
    and "io_ReadAll (Body resp) = Inr body"
  shows "(\<forall>t. returned (GetAccessToken ctx requestToken c w) = Inr t \<longrightarrow>
            Values_Get (fst (url_ParseQuery (urlmaxqueryparams w) body)) ''code'' = t \<and> t \<noteq> [])
         \<and> (snd (url_ParseQuery (urlmaxqueryparams w) body) = None
              \<and> Values_Get (fst (url_ParseQuery (urlmaxqueryparams w) body)) ''code'' \<noteq> [] \<longrightarrow>
              returned (GetAccessToken ctx requestToken c w) =
                Inr (Values_Get (fst (url_ParseQuery (urlmaxqueryparams w) body)) ''code''))
         \<and> (snd (url_ParseQuery (urlmaxqueryparams w) body) = None
              \<and> Values_Get (fst (url_ParseQuery (urlmaxqueryparams w) body)) ''code'' = [] \<longrightarrow>
              returned (GetAccessToken ctx requestToken c w) =
                Inl (New ''Empty access token in API response''))
         \<and> (fst (url_ParseQuery (urlmaxqueryparams w) body) ''code'' = None \<longrightarrow>
              (\<exists>e. returned (GetAccessToken ctx requestToken c w) = Inl e))"
proof -
  let ?inp = "\<lparr>at_ConsumerKey = consumerKey c, at_Code = requestToken\<rparr>"
  let ?code = "Values_Get (fst (url_ParseQuery (urlmaxqueryparams w) body)) ''code''"
  have doc: "json_Marshal (OfAccessToken ?inp) =
      Inr (JObject [(''consumer_key'', JString (consumerKey c)),
                    (''code'', JString requestToken)])"
    by simp
  have "returned (doHTTP ctx endpointAuthorize (OfAccessToken ?inp) c w) =
      (case snd (url_ParseQuery (urlmaxqueryparams w) body) of
         Some err \<Rightarrow> Inl (Join err (New ''Failed to parse response values''))
       | None \<Rightarrow> Inr (fst (url_ParseQuery (urlmaxqueryparams w) body)))"
    using assms(4,5)
    by (simp add: doHTTP_request [OF assms(2) doc assms(3) ok_not_redirects [OF assms(4)]])
  then have all: "returned (GetAccessToken ctx requestToken c w) =
      (case snd (url_ParseQuery (urlmaxqueryparams w) body) of
         Some err \<Rightarrow> Inl (Join err (New ''Failed to parse response values''))
       | None \<Rightarrow>
           if ?code = [] then Inl (New ''Empty access token in API response'')
           else Inr ?code)"
    using assms(1)
    by (cases "doHTTP ctx endpointAuthorize (OfAccessToken ?inp) c w")
      (simp add: GetAccessToken_def Let_def split: option.splits)
  have absent: "?code = []" if "fst (url_ParseQuery (urlmaxqueryparams w) body) ''code'' = None"
    using that by (simp add: Values_Get_def)
  show ?thesis
  proof (cases "snd (url_ParseQuery (urlmaxqueryparams w) body)")
    case None
    with absent show ?thesis
      by (simp add: all)
  next
    case (Some err)
    with absent show ?thesis
      by (simp add: all)
  qed
qed

text \<open>
  The first run is the case \<open>Default-OK\<close> of \<open>TestClient_GetAccessToken\<close>, whose
  body sets \<open>access_token\<close> only: the call fails. With a \<open>code\<close> field the call
  returns that field, whatever \<open>access_token\<close> says.
\<close>

theorem GetAccessToken_reads_code_witness:
  "returned (GetAccessToken (LiveContext 0) ''12345-qwerty''
      (newClient 200 ''/v3/oauth/authorize'' ''access_token=qwe-rty-123'') quiet) =
     Inl (New ''Empty access token in API response'')
   \<and> returned (GetAccessToken (LiveContext 0) ''12345-qwerty''
      (newClient 200 ''/v3/oauth/authorize'' ''code=qwe-rty-123&access_token=x'') quiet) =
     Inr ''qwe-rty-123''"
proof -
  have token: "''12345-qwerty'' \<noteq> []" and live: "LiveContext 0 \<noteq> NilContext"
    by simp_all
  have answered: "roundTripper_of (client (newClient 200 path b)) quiet req =
      Inr \<lparr>StatusCode = 200, Header = Map.empty, Body = Reader b None\<rparr>" for path b req
    by (simp add: newClient_def roundTripper_of_def)
  have status: "StatusCode \<lparr>StatusCode = 200, Header = Map.empty, Body = Reader b None\<rparr> = 200"
    and read: "io_ReadAll (Body \<lparr>StatusCode = 200, Header = Map.empty, Body = Reader b None\<rparr>) =
      Inr b" for b
    by simp_all
  note run = GetAccessToken_reads_code [OF token live answered status read]
  have absent: "snd (url_ParseQuery (urlmaxqueryparams quiet) ''access_token=qwe-rty-123'') = None
      \<and> Values_Get (fst (url_ParseQuery (urlmaxqueryparams quiet) ''access_token=qwe-rty-123'')) ''code'' = []"
    by (simp add: url_ParseQuery_def quiet_def strings_Cut_def QueryUnescape_def
        Values_Get_def)
  have present: "snd (url_ParseQuery (urlmaxqueryparams quiet) ''code=qwe-rty-123&access_token=x'') = None
      \<and> Values_Get (fst (url_ParseQuery (urlmaxqueryparams quiet) ''code=qwe-rty-123&access_token=x'')) ''code'' \<noteq> []"
    and code: "Values_Get (fst (url_ParseQuery (urlmaxqueryparams quiet) ''code=qwe-rty-123&access_token=x'')) ''code'' =
      ''qwe-rty-123''"
    by (simp_all add: url_ParseQuery_def quiet_def strings_Cut_def QueryUnescape_def
        Values_Get_def)
  have "returned (GetAccessToken (LiveContext 0) ''12345-qwerty''
      (newClient 200 ''/v3/oauth/authorize'' ''access_token=qwe-rty-123'') quiet) =
     Inl (New ''Empty access token in API response'')"
    by (rule run [THEN conjunct2, THEN conjunct2, THEN conjunct1, THEN mp, OF absent])
  moreover have "returned (GetAccessToken (LiveContext 0) ''12345-qwerty''
      (newClient 200 ''/v3/oauth/authorize'' ''code=qwe-rty-123&access_token=x'') quiet) =
     Inr ''qwe-rty-123''"
    using run [THEN conjunct2, THEN conjunct1, THEN mp, OF present,
        of "''/v3/oauth/authorize''"]
    by (simp only: code)
  ultimately show ?thesis
    by (rule conjI)
qed

text \<open>
  C2. A required input that is empty stops the operation before any request is made:
  \<open>GetRequestToken\<close> with an empty redirect URI, \<open>GetAccessToken\<close> with an empty
  request token and \<open>Add\<close> with an input whose URL or access token is empty each
  return their validation error and leave the world, and so the log of round trips,
  as it was.
\<close>

theorem empty_input_no_request:
  "returned (GetRequestToken ctx [] c w) = Inl (New ''ReditectUri is empty'')
   \<and> after (GetRequestToken ctx [] c w) = w
   \<and> returned (GetAccessToken ctx [] c w) = Inl (New ''RequestToken is empty'')
   \<and> after (GetAccessToken ctx [] c w) = w
   \<and> (URL i = [] \<or> AccessToken i = [] \<longrightarrow>
        returned (Add ctx i c w) =
          Some (New (if URL i = [] then ''required URL values is empty''
                     else ''access token is empty''))
        \<and> after (Add ctx i c w) = w)"
  by (simp add: GetRequestToken_def GetAccessToken_def Add_def validate_def)

text \<open>
  Three cases of the repository's tests, run on a stub that would have answered 200:
  no entry is added to the log.
\<close>

theorem empty_input_no_request_witness:
  "returned (Add (LiveContext 0)
       \<lparr>URL = ''some_url.com'', Title = ''some_title'',
        Tags = [''some_tag_1'', ''some_tag_2''], AccessToken = []\<rparr>
       (newClient 200 ''/v3/add'' []) quiet) = Some (New ''access token is empty'')
   \<and> events (after (Add (LiveContext 0)
       \<lparr>URL = ''some_url.com'', Title = ''some_title'',
        Tags = [''some_tag_1'', ''some_tag_2''], AccessToken = []\<rparr>
       (newClient 200 ''/v3/add'' []) quiet)) = []
   \<and> returned (Add (LiveContext 0)
       \<lparr>URL = [], Title = ''some_title'',
        Tags = [''some_tag_1'', ''some_tag_2''], AccessToken = ''access-to-ken''\<rparr>
       (newClient 200 ''/v3/add'' []) quiet) = Some (New ''required URL values is empty'')
   \<and> events (after (GetRequestToken (LiveContext 0) []
       (newClient 200 ''/v3/oauth/request'' ''code=qwe-rty-123'') quiet)) = []"
  using empty_input_no_request [of "LiveContext 0" "newClient 200 ''/v3/add'' []" quiet
      "\<lparr>URL = ''some_url.com'', Title = ''some_title'',
        Tags = [''some_tag_1'', ''some_tag_2''], AccessToken = []\<rparr>"]
    empty_input_no_request [of "LiveContext 0" "newClient 200 ''/v3/add'' []" quiet
      "\<lparr>URL = [], Title = ''some_title'',
        Tags = [''some_tag_1'', ''some_tag_2''], AccessToken = ''access-to-ken''\<rparr>"]
    empty_input_no_request [of "LiveContext 0"
      "newClient 200 ''/v3/oauth/request'' ''code=qwe-rty-123''" quiet]
  by (simp add: quiet_def)

text \<open>
  C3, as stated, fails. The claim promises the value of \<open>code\<close> whenever it is not
  empty, but \<open>doHTTP\<close> returns the error of \<open>url.ParseQuery\<close> before
  \<open>GetRequestToken\<close> looks at the field: a 200 response with the body
  \<open>code=abc&%\<close> has the value \<open>abc\<close> for \<open>code\<close>, and the call returns the
  parse error.
\<close>

theorem GetRequestToken_unparsable_body_counterexample:
  "Values_Get (fst (url_ParseQuery (urlmaxqueryparams quiet) ''code=abc&%'')) ''code'' = ''abc''
   \<and> returned (GetRequestToken (LiveContext 0) ''https://localhost''
        (newClient 200 ''/v3/oauth/request'' ''code=abc&%'') quiet) =
      Inl (Join (EscapeError ''%'') (New ''Failed to parse response values''))"
proof -
  have doc: "json_Marshal (OfRequestToken
        \<lparr>rt_ConsumerKey = ''key'', rt_RedirectURI = ''https://localhost''\<rparr>) =
      Inr (JObject [(''consumer_key'', JString ''key''),
                    (''redirectUri'', JString ''https://localhost'')])"
    by simp
  have answered: "roundTripper_of (client (newClient 200 path b)) quiet req =
      Inr \<lparr>StatusCode = 200, Header = Map.empty, Body = Reader b None\<rparr>" for path b req
    by (simp add: newClient_def roundTripper_of_def)
  have plain: "\<not> redirects \<lparr>StatusCode = 200, Header = Map.empty, Body = Reader b None\<rparr>" for b
    by (simp add: redirects_def)
  have parse: "snd (url_ParseQuery (urlmaxqueryparams quiet) ''code=abc&%'') =
      Some (EscapeError ''%'')"
    and code: "Values_Get (fst (url_ParseQuery (urlmaxqueryparams quiet) ''code=abc&%'')) ''code'' =
      ''abc''"
    by (simp_all add: url_ParseQuery_def quiet_def strings_Cut_def QueryUnescape_def
        Values_Get_def)
  have key: "consumerKey (newClient 200 path b) = ''key''" for path b
    by (simp add: newClient_def)
  have "returned (doHTTP (LiveContext 0) endpointRequestToken
      (OfRequestToken \<lparr>rt_ConsumerKey = ''key'', rt_RedirectURI = ''https://localhost''\<rparr>)
      (newClient 200 ''/v3/oauth/request'' ''code=abc&%'') quiet) =
     Inl (Join (EscapeError ''%'') (New ''Failed to parse response values''))"
    using parse by (simp add: doHTTP_request [OF _ doc answered plain])
  then have "returned (GetRequestToken (LiveContext 0) ''https://localhost''
        (newClient 200 ''/v3/oauth/request'' ''code=abc&%'') quiet) =
      Inl (Join (EscapeError ''%'') (New ''Failed to parse response values''))"
    by (cases "doHTTP (LiveContext 0) endpointRequestToken
      (OfRequestToken \<lparr>rt_ConsumerKey = ''key'', rt_RedirectURI = ''https://localhost''\<rparr>)
      (newClient 200 ''/v3/oauth/request'' ''code=abc&%'') quiet")
      (simp add: GetRequestToken_def key)
  with code show ?thesis
    by (rule conjI)
qed

text \<open>
  C3, amended. When the redirect URI is not empty and the POST to \<open>/oauth/request\<close>
  is answered with status 200: if the body is read to its end and \<open>url.ParseQuery\<close>
  reports no error for it, \<open>GetRequestToken\<close> returns the first value of \<open>code\<close>
  when that value is not empty, and the error \<open>Empty request token in API response\<close>
  when it is empty, as it is when the field is absent; if \<open>url.ParseQuery\<close> reports
  an error, the call returns that error joined with \<open>Failed to parse response values\<close>,
  whatever \<open>code\<close> holds; if reading the body fails, the call returns the reader's
  error joined with \<open>Failed read response\<close>.
\<close>

theorem GetRequestToken_on_200:
  assumes "redirectUri \<noteq> []" and "ctx \<noteq> NilContext"
    and "roundTripper_of (client c) w
           (postRequest ctx endpointRequestToken
              (JObject [(''consumer_key'', JString (consumerKey c)),
                        (''redirectUri'', JString redirectUri)])) = Inr resp"
    and "StatusCode resp = 200"
  shows "(io_ReadAll (Body resp) = Inr body
            \<and> snd (url_ParseQuery (urlmaxqueryparams w) body) = None
            \<and> Values_Get (fst (url_ParseQuery (urlmaxqueryparams w) body)) ''code'' \<noteq> [] \<longrightarrow>
            returned (GetRequestToken ctx redirectUri c w) =
              Inr (Values_Get (fst (url_ParseQuery (urlmaxqueryparams w) body)) ''code''))
         \<and> (io_ReadAll (Body resp) = Inr body
            \<and> snd (url_ParseQuery (urlmaxqueryparams w) body) = None
            \<and> Values_Get (fst (url_ParseQuery (urlmaxqueryparams w) body)) ''code'' = [] \<longrightarrow>
            returned (GetRequestToken ctx redirectUri c w) =
              Inl (New ''Empty request token in API response''))
         \<and> (io_ReadAll (Body resp) = Inr body
            \<and> snd (url_ParseQuery (urlmaxqueryparams w) body) = Some err \<longrightarrow>
            returned (GetRequestToken ctx redirectUri c w) =
              Inl (Join err (New ''Failed to parse response values'')))
         \<and> (io_ReadAll (Body resp) = Inl err \<longrightarrow>
            returned (GetRequestToken ctx redirectUri c w) =
              Inl (Join err (New ''Failed read response'')))
         \<and> (fst (url_ParseQuery (urlmaxqueryparams w) body) ''code'' = None \<longrightarrow>
            Values_Get (fst (url_ParseQuery (urlmaxqueryparams w) body)) ''code'' = [])"
proof -
  let ?inp = "\<lparr>rt_ConsumerKey = consumerKey c, rt_RedirectURI = redirectUri\<rparr>"
  let ?run = "doHTTP ctx endpointRequestToken (OfRequestToken ?inp) c w"
  have doc: "json_Marshal (OfRequestToken ?inp) =
      Inr (JObject [(''consumer_key'', JString (consumerKey c)),
                    (''redirectUri'', JString redirectUri)])"
    by simp
  have http: "returned ?run =
      (case io_ReadAll (Body resp) of
         Inl e \<Rightarrow> Inl (Join e (New ''Failed read response''))
       | Inr b \<Rightarrow>
           (case snd (url_ParseQuery (urlmaxqueryparams w) b) of
              Some e \<Rightarrow> Inl (Join e (New ''Failed to parse response values''))
            | None \<Rightarrow> Inr (fst (url_ParseQuery (urlmaxqueryparams w) b))))"
    using assms(4)
    by (simp add: doHTTP_request [OF assms(2) doc assms(3) ok_not_redirects [OF assms(4)]])
  have call: "returned (GetRequestToken ctx redirectUri c w) =
      (case returned ?run of
         Inl e \<Rightarrow> Inl e
       | Inr values \<Rightarrow>
           if Values_Get values ''code'' = []
           then Inl (New ''Empty request token in API response'')
           else Inr (Values_Get values ''code''))"
    using assms(1)
    by (cases ?run) (simp add: GetRequestToken_def Let_def split: sum.splits)
  have one: "returned (GetRequestToken ctx redirectUri c w) =
        Inr (Values_Get (fst (url_ParseQuery (urlmaxqueryparams w) body)) ''code'')"
    if "io_ReadAll (Body resp) = Inr body"
      and "snd (url_ParseQuery (urlmaxqueryparams w) body) = None"
      and "Values_Get (fst (url_ParseQuery (urlmaxqueryparams w) body)) ''code'' \<noteq> []"
    using that by (simp add: call http)
  have two: "returned (GetRequestToken ctx redirectUri c w) =
        Inl (New ''Empty request token in API response'')"
    if "io_ReadAll (Body resp) = Inr body"
      and "snd (url_ParseQuery (urlmaxqueryparams w) body) = None"
      and "Values_Get (fst (url_ParseQuery (urlmaxqueryparams w) body)) ''code'' = []"
    using that by (simp add: call http)
  have three: "returned (GetRequestToken ctx redirectUri c w) =
        Inl (Join err (New ''Failed to parse response values''))"
    if "io_ReadAll (Body resp) = Inr body"
      and "snd (url_ParseQuery (urlmaxqueryparams w) body) = Some err"
    using that by (simp add: call http)
  have four: "returned (GetRequestToken ctx redirectUri c w) =
        Inl (Join err (New ''Failed read response''))"
    if "io_ReadAll (Body resp) = Inl err"
    using that by (simp add: call http)
  have five: "Values_Get (fst (url_ParseQuery (urlmaxqueryparams w) body)) ''code'' = []"
    if "fst (url_ParseQuery (urlmaxqueryparams w) body) ''code'' = None"
    using that by (simp add: Values_Get_def)
  from one two three four five show ?thesis
    by blast
qed

text \<open>
  The cases \<open>Default-OK\<close> and \<open>Empty response code\<close> of
  \<open>TestClient_GetRequestToken\<close>, a body with no \<open>code\<close> field, the body of
  the counterexample, and a body whose reading breaks off.
\<close>

theorem GetRequestToken_on_200_witness:
  "returned (GetRequestToken (LiveContext 0) ''https://localhost''
      (newClient 200 ''/v3/oauth/request'' ''code=qwe-rty-123'') quiet) = Inr ''qwe-rty-123''
   \<and> returned (GetRequestToken (LiveContext 0) ''https://localhost''
      (newClient 200 ''/v3/oauth/request'' ''code='') quiet) =
        Inl (New ''Empty request token in API response'')
   \<and> returned (GetRequestToken (LiveContext 0) ''https://localhost''
      (newClient 200 ''/v3/oauth/request'' ''state=1'') quiet) =
        Inl (New ''Empty request token in API response'')
   \<and> returned (GetRequestToken (LiveContext 0) ''https://localhost''
      (newClient 200 ''/v3/oauth/request'' ''code=abc&%'') quiet) =
        Inl (Join (EscapeError ''%'') (New ''Failed to parse response values''))
   \<and> returned (GetRequestToken (LiveContext 0) ''https://localhost''
      \<lparr>client =
         \<lparr>Transport = Some (\<lambda>r. Inr \<lparr>StatusCode = 200, Header = Map.empty,
              Body = Reader ''code=qwe'' (Some (New ''unexpected EOF''))\<rparr>),
          Timeout = 0\<rparr>,
       consumerKey = ''key''\<rparr> quiet) =
        Inl (Join (New ''unexpected EOF'') (New ''Failed read response''))"
proof -
  have uri: "''https://localhost'' \<noteq> []" and live: "LiveContext 0 \<noteq> NilContext"
    by simp_all
  have answered: "roundTripper_of (client (newClient 200 path b)) quiet req =
      Inr \<lparr>StatusCode = 200, Header = Map.empty, Body = Reader b None\<rparr>" for path b req
    by (simp add: newClient_def roundTripper_of_def)
  have status: "StatusCode \<lparr>StatusCode = 200, Header = Map.empty, Body = Reader b None\<rparr> = 200"
    and read: "io_ReadAll (Body \<lparr>StatusCode = 200, Header = Map.empty, Body = Reader b None\<rparr>) =
      Inr b" for b
    by simp_all
  note run = GetRequestToken_on_200 [OF uri live answered status]
  have full: "io_ReadAll (Body \<lparr>StatusCode = 200, Header = Map.empty,
          Body = Reader ''code=qwe-rty-123'' None\<rparr>) = Inr ''code=qwe-rty-123''
      \<and> snd (url_ParseQuery (urlmaxqueryparams quiet) ''code=qwe-rty-123'') = None
      \<and> Values_Get (fst (url_ParseQuery (urlmaxqueryparams quiet) ''code=qwe-rty-123''))
          ''code'' \<noteq> []"
    and code: "Values_Get (fst (url_ParseQuery (urlmaxqueryparams quiet) ''code=qwe-rty-123''))
          ''code'' = ''qwe-rty-123''"
    by (simp_all add: url_ParseQuery_def quiet_def strings_Cut_def QueryUnescape_def
        Values_Get_def)
  have empty: "io_ReadAll (Body \<lparr>StatusCode = 200, Header = Map.empty,
          Body = Reader ''code='' None\<rparr>) = Inr ''code=''
      \<and> snd (url_ParseQuery (urlmaxqueryparams quiet) ''code='') = None
      \<and> Values_Get (fst (url_ParseQuery (urlmaxqueryparams quiet) ''code='')) ''code'' = []"
    by (simp add: url_ParseQuery_def quiet_def strings_Cut_def QueryUnescape_def
        Values_Get_def)
  have absent: "io_ReadAll (Body \<lparr>StatusCode = 200, Header = Map.empty,
          Body = Reader ''state=1'' None\<rparr>) = Inr ''state=1''
      \<and> snd (url_ParseQuery (urlmaxqueryparams quiet) ''state=1'') = None
      \<and> Values_Get (fst (url_ParseQuery (urlmaxqueryparams quiet) ''state=1'')) ''code'' = []"
    by (simp add: url_ParseQuery_def quiet_def strings_Cut_def QueryUnescape_def
        Values_Get_def)
  have broken: "io_ReadAll (Body \<lparr>StatusCode = 200, Header = Map.empty,
          Body = Reader ''code=abc&%'' None\<rparr>) = Inr ''code=abc&%''
      \<and> snd (url_ParseQuery (urlmaxqueryparams quiet) ''code=abc&%'') =
          Some (EscapeError ''%'')"
    by (simp add: url_ParseQuery_def quiet_def strings_Cut_def QueryUnescape_def
        Values_Get_def)
  have "returned (GetRequestToken (LiveContext 0) ''https://localhost''
      (newClient 200 ''/v3/oauth/request'' ''code=qwe-rty-123'') quiet) = Inr ''qwe-rty-123''"
    using run [THEN conjunct1, THEN mp, OF full, of "''/v3/oauth/request''"]
    by (simp only: code)
  moreover have "returned (GetRequestToken (LiveContext 0) ''https://localhost''
      (newClient 200 ''/v3/oauth/request'' ''code='') quiet) =
        Inl (New ''Empty request token in API response'')"
    by (rule run [THEN conjunct2, THEN conjunct1, THEN mp, OF empty])
  moreover have "returned (GetRequestToken (LiveContext 0) ''https://localhost''
      (newClient 200 ''/v3/oauth/request'' ''state=1'') quiet) =
        Inl (New ''Empty request token in API response'')"
    by (rule run [THEN conjunct2, THEN conjunct1, THEN mp, OF absent])
  moreover have "returned (GetRequestToken (LiveContext 0) ''https://localhost''
      (newClient 200 ''/v3/oauth/request'' ''code=abc&%'') quiet) =
        Inl (Join (EscapeError ''%'') (New ''Failed to parse response values''))"
    by (rule run [THEN conjunct2, THEN conjunct2, THEN conjunct1, THEN mp, OF broken])
  moreover have "returned (GetRequestToken (LiveContext 0) ''https://localhost''
      \<lparr>client =
         \<lparr>Transport = Some (\<lambda>r. Inr \<lparr>StatusCode = 200, Header = Map.empty,
              Body = Reader ''code=qwe'' (Some (New ''unexpected EOF''))\<rparr>),
          Timeout = 0\<rparr>,
       consumerKey = ''key''\<rparr> quiet) =
        Inl (Join (New ''unexpected EOF'') (New ''Failed read response''))"
  proof -
    let ?resp = "\<lparr>StatusCode = 200, Header = Map.empty,
        Body = Reader ''code=qwe'' (Some (New ''unexpected EOF''))\<rparr>"
    let ?c = "\<lparr>client = \<lparr>Transport = Some (\<lambda>r. Inr ?resp), Timeout = 0\<rparr>,
        consumerKey = ''key''\<rparr>"
    have cut: "roundTripper_of (client ?c) quiet req = Inr ?resp" for req
      by (simp add: roundTripper_of_def)
    have ok: "StatusCode ?resp = 200"
      and fails: "io_ReadAll (Body ?resp) = Inl (New ''unexpected EOF'')"
      by simp_all
    show ?thesis
      by (rule GetRequestToken_on_200 [OF uri live cut ok, THEN conjunct2, THEN conjunct2,
            THEN conjunct2, THEN conjunct1, THEN mp, OF fails])
  qed
  ultimately show ?thesis
    by blast
qed




text \<open>
  C5. \<open>GetAuthorizationURL\<close> only formats a string: for a request token and a
  redirect URL that are not empty it returns
  \<open>https://getpocket.com/auth/authorize?request_token=\<close>, the token,
  \<open>&redirect_uri=\<close> and the URL, whatever the context, the client and the world
  are, and it leaves the client and the world (so the log of round trips) unchanged.
\<close>

theorem GetAuthorizationURL_formats:
  assumes "requestToken \<noteq> []" and "redirectUrl \<noteq> []"
  shows "GetAuthorizationURL ctx requestToken redirectUrl c w =
           (Inr (''https://getpocket.com/auth/authorize?request_token='' @ requestToken
                 @ ''&redirect_uri='' @ redirectUrl), c, w)"
  using assms by (simp add: GetAuthorizationURL_def Sprintf_authorizeURL)

text \<open>The example of the specification.\<close>

theorem GetAuthorizationURL_formats_witness:
  "GetAuthorizationURL (LiveContext 0) ''abc'' ''https://localhost''
     (newClient 500 [] []) quiet =
   (Inr ''https://getpocket.com/auth/authorize?request_token=abc&redirect_uri=https://localhost'',
    newClient 500 [] [], quiet)"
  using GetAuthorizationURL_formats [of "''abc''" "''https://localhost''" "LiveContext 0"
      "newClient 500 [] []" quiet]
  by simp

text \<open>
  C6, as stated, fails. \<open>Add\<close> goes through \<open>doHTTP\<close>, which parses the body of
  every 200 response as a query string and returns the parse error: a valid input and
  a 200 response whose body is a lone percent sign give an error.
\<close>

theorem Add_200_unparsable_body_counterexample:
  "validate \<lparr>URL = ''some_url.com'', Title = ''some_title'', Tags = [],
             AccessToken = ''access-to-ken''\<rparr> = None
   \<and> returned (Add (LiveContext 0)
        \<lparr>URL = ''some_url.com'', Title = ''some_title'', Tags = [],
         AccessToken = ''access-to-ken''\<rparr>
        (newClient 200 ''/v3/add'' ''%'') quiet) =
      Some (Join (EscapeError ''%'') (New ''Failed to parse response values''))"
proof -
  let ?i = "\<lparr>URL = ''some_url.com'', Title = ''some_title'', Tags = [],
             AccessToken = ''access-to-ken''\<rparr>"
  let ?run = "doHTTP (LiveContext 0) endpointAdd (OfAdd (generateRequest ?i ''key''))
      (newClient 200 ''/v3/add'' ''%'') quiet"
  have doc: "json_Marshal (OfAdd (generateRequest ?i ''key'')) =
        Inr (JObject [(''url'', JString ''some_url.com''), (''title'', JString ''some_title''),
          (''tags'', JString []), (''tweet_id'', JNumber 0),
          (''consumer_key'', JString ''key''), (''access_token'', JString ''access-to-ken'')])"
    by (simp add: generateRequest_def)
  have answered: "roundTripper_of (client (newClient 200 path b)) quiet req =
      Inr \<lparr>StatusCode = 200, Header = Map.empty, Body = Reader b None\<rparr>" for path b req
    by (simp add: newClient_def roundTripper_of_def)
  have plain: "\<not> redirects \<lparr>StatusCode = 200, Header = Map.empty, Body = Reader b None\<rparr>" for b
    by (simp add: redirects_def)
  have parse: "snd (url_ParseQuery (urlmaxqueryparams quiet) ''%'') = Some (EscapeError ''%'')"
    by (simp add: url_ParseQuery_def quiet_def strings_Cut_def QueryUnescape_def)
  have valid: "validate ?i = None"
    by (simp add: validate_def)
  have "returned ?run = Inl (Join (EscapeError ''%'') (New ''Failed to parse response values''))"
    using parse by (simp add: doHTTP_request [OF _ doc answered plain])
  then have "returned (Add (LiveContext 0) ?i (newClient 200 ''/v3/add'' ''%'') quiet) =
      Some (Join (EscapeError ''%'') (New ''Failed to parse response values''))"
    by (cases ?run) (simp add: Add_def valid newClient_def)
  with valid show ?thesis
    by (rule conjI)
qed

text \<open>
  C6, amended. For a valid input (URL and access token not empty), when the POST to
  \<open>/add\<close> is answered with status 200, \<open>Add\<close> returns no error if the body is
  read to its end and \<open>url.ParseQuery\<close> reports no error for it; it returns the
  error of \<open>url.ParseQuery\<close> joined with \<open>Failed to parse response values\<close> if
  there is one; and it returns the reader's error joined with
  \<open>Failed read response\<close> if reading the body fails. Nothing else in the body plays
  a part.
\<close>

theorem Add_on_200:
  assumes "URL i \<noteq> []" and "AccessToken i \<noteq> []" and "ctx \<noteq> NilContext"
    and "roundTripper_of (client c) w
            (postRequest ctx endpointAdd
               (JObject [(''url'', JString (URL i)),
                         (''title'', JString (Title i)),
                         (''tags'', JString (strings_Join (Tags i) '','')),
                         (''tweet_id'', JNumber 0),
                         (''consumer_key'', JString (consumerKey c)),
                         (''access_token'', JString (AccessToken i))])) = Inr resp"
    and "StatusCode resp = 200"
  shows "(io_ReadAll (Body resp) = Inr body
            \<and> snd (url_ParseQuery (urlmaxqueryparams w) body) = None \<longrightarrow>
            returned (Add ctx i c w) = None)
         \<and> (io_ReadAll (Body resp) = Inr body
            \<and> snd (url_ParseQuery (urlmaxqueryparams w) body) = Some err \<longrightarrow>
            returned (Add ctx i c w) =
              Some (Join err (New ''Failed to parse response values'')))
         \<and> (io_ReadAll (Body resp) = Inl err \<longrightarrow>
            returned (Add ctx i c w) = Some (Join err (New ''Failed read response'')))"
proof -
  let ?run = "doHTTP ctx endpointAdd (OfAdd (generateRequest i (consumerKey c))) c w"
  have doc: "json_Marshal (OfAdd (generateRequest i (consumerKey c))) =
      Inr (JObject [(''url'', JString (URL i)),
                    (''title'', JString (Title i)),
                    (''tags'', JString (strings_Join (Tags i) '','')),
                    (''tweet_id'', JNumber 0),
                    (''consumer_key'', JString (consumerKey c)),
                    (''access_token'', JString (AccessToken i))])"
    by (simp add: generateRequest_def)
  have http: "returned ?run =
      (case io_ReadAll (Body resp) of
         Inl e \<Rightarrow> Inl (Join e (New ''Failed read response''))
       | Inr b \<Rightarrow>
           (case snd (url_ParseQuery (urlmaxqueryparams w) b) of
              Some e \<Rightarrow> Inl (Join e (New ''Failed to parse response values''))
            | None \<Rightarrow> Inr (fst (url_ParseQuery (urlmaxqueryparams w) b))))"
    using assms(5)
    by (simp add: doHTTP_request [OF assms(3) doc assms(4) ok_not_redirects [OF assms(5)]])
  have call: "returned (Add ctx i c w) =
      (case returned ?run of Inl e \<Rightarrow> Some e | Inr values \<Rightarrow> None)"
    using assms(1,2)
    by (cases ?run) (simp add: Add_def validate_def split: sum.splits)
  have one: "returned (Add ctx i c w) = None"
    if "io_ReadAll (Body resp) = Inr body"
      and "snd (url_ParseQuery (urlmaxqueryparams w) body) = None"
    using that by (simp add: call http)
  have two: "returned (Add ctx i c w) = Some (Join err (New ''Failed to parse response values''))"
    if "io_ReadAll (Body resp) = Inr body"
      and "snd (url_ParseQuery (urlmaxqueryparams w) body) = Some err"
    using that by (simp add: call http)
  have three: "returned (Add ctx i c w) = Some (Join err (New ''Failed read response''))"
    if "io_ReadAll (Body resp) = Inl err"
    using that by (simp add: call http)
  from one two three show ?thesis
    by blast
qed

text \<open>
  The case \<open>Default-OK\<close> of \<open>TestClient_Add\<close> (an empty body); a body that is a
  JSON text, which parses as one key; the body of the counterexample; and a body whose
  reading breaks off.
\<close>

theorem Add_on_200_witness:
  "returned (Add (LiveContext 0)
      \<lparr>URL = ''some_url.com'', Title = ''some_title'',
       Tags = [''some_tag_1'', ''some_tag_2''], AccessToken = ''access-to-ken''\<rparr>
      (newClient 200 ''/v3/add'' []) quiet) = None
   \<and> returned (Add (LiveContext 0)
      \<lparr>URL = ''some_url.com'', Title = ''some_title'',
       Tags = [''some_tag_1'', ''some_tag_2''], AccessToken = ''access-to-ken''\<rparr>
      (newClient 200 ''/v3/add'' ''{\"item\": 1}'') quiet) = None
   \<and> returned (Add (LiveContext 0)
      \<lparr>URL = ''some_url.com'', Title = ''some_title'',
       Tags = [''some_tag_1'', ''some_tag_2''], AccessToken = ''access-to-ken''\<rparr>
      (newClient 200 ''/v3/add'' ''%'') quiet) =
     Some (Join (EscapeError ''%'') (New ''Failed to parse response values''))
   \<and> returned (Add (LiveContext 0)
      \<lparr>URL = ''some_url.com'', Title = ''some_title'',
       Tags = [''some_tag_1'', ''some_tag_2''], AccessToken = ''access-to-ken''\<rparr>
      \<lparr>client =
         \<lparr>Transport = Some (\<lambda>r. Inr \<lparr>StatusCode = 200, Header = Map.empty,
              Body = Reader ''item='' (Some (New ''unexpected EOF''))\<rparr>),
          Timeout = 0\<rparr>,
       consumerKey = ''key''\<rparr> quiet) =
     Some (Join (New ''unexpected EOF'') (New ''Failed read response''))"
proof -
  let ?i = "\<lparr>URL = ''some_url.com'', Title = ''some_title'',
       Tags = [''some_tag_1'', ''some_tag_2''], AccessToken = ''access-to-ken''\<rparr>"
  have url: "URL ?i \<noteq> []" and token: "AccessToken ?i \<noteq> []"
    and live: "LiveContext 0 \<noteq> NilContext"
    by simp_all
  have answered: "roundTripper_of (client (newClient 200 path b)) quiet req =
      Inr \<lparr>StatusCode = 200, Header = Map.empty, Body = Reader b None\<rparr>" for path b req
    by (simp add: newClient_def roundTripper_of_def)
  have status: "StatusCode \<lparr>StatusCode = 200, Header = Map.empty, Body = Reader b None\<rparr> = 200"
    for b
    by simp
  note run = Add_on_200 [OF url token live answered status]
  have empty: "io_ReadAll (Body \<lparr>StatusCode = 200, Header = Map.empty,
          Body = Reader [] None\<rparr>) = Inr []
      \<and> snd (url_ParseQuery (urlmaxqueryparams quiet) []) = None"
    by (simp add: url_ParseQuery_def quiet_def)
  have json: "io_ReadAll (Body \<lparr>StatusCode = 200, Header = Map.empty,
          Body = Reader ''{\"item\": 1}'' None\<rparr>) = Inr ''{\"item\": 1}''
      \<and> snd (url_ParseQuery (urlmaxqueryparams quiet) ''{\"item\": 1}'') = None"
    by (simp add: url_ParseQuery_def quiet_def strings_Cut_def QueryUnescape_def)
  have broken: "io_ReadAll (Body \<lparr>StatusCode = 200, Header = Map.empty,
          Body = Reader ''%'' None\<rparr>) = Inr ''%''
      \<and> snd (url_ParseQuery (urlmaxqueryparams quiet) ''%'') = Some (EscapeError ''%'')"
    by (simp add: url_ParseQuery_def quiet_def strings_Cut_def QueryUnescape_def)
  have "returned (Add (LiveContext 0) ?i (newClient 200 ''/v3/add'' []) quiet) = None"
    by (rule run [THEN conjunct1, THEN mp, OF empty])
  moreover have "returned (Add (LiveContext 0) ?i
      (newClient 200 ''/v3/add'' ''{\"item\": 1}'') quiet) = None"
    by (rule run [THEN conjunct1, THEN mp, OF json])
  moreover have "returned (Add (LiveContext 0) ?i (newClient 200 ''/v3/add'' ''%'') quiet) =
     Some (Join (EscapeError ''%'') (New ''Failed to parse response values''))"
    by (rule run [THEN conjunct2, THEN conjunct1, THEN mp, OF broken])
  moreover have "returned (Add (LiveContext 0) ?i
      \<lparr>client =
         \<lparr>Transport = Some (\<lambda>r. Inr \<lparr>StatusCode = 200, Header = Map.empty,
              Body = Reader ''item='' (Some (New ''unexpected EOF''))\<rparr>),
          Timeout = 0\<rparr>,
       consumerKey = ''key''\<rparr> quiet) =
     Some (Join (New ''unexpected EOF'') (New ''Failed read response''))"
  proof -
    let ?resp = "\<lparr>StatusCode = 200, Header = Map.empty,
        Body = Reader ''item='' (Some (New ''unexpected EOF''))\<rparr>"
    let ?c = "\<lparr>client = \<lparr>Transport = Some (\<lambda>r. Inr ?resp), Timeout = 0\<rparr>,
        consumerKey = ''key''\<rparr>"
    have cut: "roundTripper_of (client ?c) quiet req = Inr ?resp" for req
      by (simp add: roundTripper_of_def)
    have ok: "StatusCode ?resp = 200"
      and fails: "io_ReadAll (Body ?resp) = Inl (New ''unexpected EOF'')"
      by simp_all
    show ?thesis
      by (rule Add_on_200 [OF url token live cut ok, THEN conjunct2, THEN conjunct2,
            THEN mp, OF fails])
  qed
  ultimately show ?thesis
    by blast
qed

text \<open>
  C7. The wire structure \<open>Add\<close> builds has the input's tags joined with commas in
  its \<open>tags\<close> field: no tags give the empty string, the tags \<open>a\<close> and \<open>b\<close> give
  \<open>a,b\<close>, and in general the first tag is followed by each further tag with a comma
  before it. The structure carries the input's URL, title and access token and the
  consumer key, and it is the document of the request \<open>Add\<close> sends to \<open>/add\<close>.
\<close>

theorem Add_wire_request:
  "add_Tags (generateRequest i key) = strings_Join (Tags i) '',''
   \<and> (Tags i = [] \<longrightarrow> add_Tags (generateRequest i key) = [])
   \<and> (\<forall>a b. Tags i = [a, b] \<longrightarrow> add_Tags (generateRequest i key) = a @ '','' @ b)
   \<and> (\<forall>t ts. Tags i = t # ts \<longrightarrow>
         add_Tags (generateRequest i key) = t @ concat (map (\<lambda>x. '','' @ x) ts))
   \<and> add_Url (generateRequest i key) = URL i
   \<and> add_Title (generateRequest i key) = Title i
   \<and> add_AccessToken (generateRequest i key) = AccessToken i
   \<and> add_ConsumerKey (generateRequest i key) = key
   \<and> (URL i \<noteq> [] \<and> AccessToken i \<noteq> [] \<and> ctx \<noteq> NilContext \<longrightarrow>
        take (Suc (length (events w))) (events (after (Add ctx i c w))) =
          events w @
          [RoundTrip (postRequest ctx endpointAdd
             (JObject [(''url'', JString (URL i)),
                       (''title'', JString (Title i)),
                       (''tags'', JString (strings_Join (Tags i) '','')),
                       (''tweet_id'', JNumber 0),
                       (''consumer_key'', JString (consumerKey c)),
                       (''access_token'', JString (AccessToken i))]))])"
proof -
  have add_doc: "json_Marshal (OfAdd (generateRequest i (consumerKey c))) =
      Inr (JObject [(''url'', JString (URL i)),
                    (''title'', JString (Title i)),
                    (''tags'', JString (strings_Join (Tags i) '','')),
                    (''tweet_id'', JNumber 0),
                    (''consumer_key'', JString (consumerKey c)),
                    (''access_token'', JString (AccessToken i))])"
    by (simp add: generateRequest_def)
  have fields: "generateRequest i key =
      \<lparr>add_Url = URL i, add_Title = Title i, add_Tags = strings_Join (Tags i) '','',
       add_TweetId = 0, add_ConsumerKey = key, add_AccessToken = AccessToken i\<rparr>"
    by (simp add: generateRequest_def)
  have sent: "take (Suc (length (events w))) (events (after (Add ctx i c w))) =
          events w @
          [RoundTrip (postRequest ctx endpointAdd
             (JObject [(''url'', JString (URL i)),
                       (''title'', JString (Title i)),
                       (''tags'', JString (strings_Join (Tags i) '','')),
                       (''tweet_id'', JNumber 0),
                       (''consumer_key'', JString (consumerKey c)),
                       (''access_token'', JString (AccessToken i))]))]"
    if "URL i \<noteq> []" and "AccessToken i \<noteq> []" and live: "ctx \<noteq> NilContext"
  proof -
    let ?run = "doHTTP ctx endpointAdd (OfAdd (generateRequest i (consumerKey c))) c w"
    obtain es where "events (after ?run) =
        events w @
        RoundTrip (postRequest ctx endpointAdd
          (JObject [(''url'', JString (URL i)),
                    (''title'', JString (Title i)),
                    (''tags'', JString (strings_Join (Tags i) '','')),
                    (''tweet_id'', JNumber 0),
                    (''consumer_key'', JString (consumerKey c)),
                    (''access_token'', JString (AccessToken i))])) # es"
      using doHTTP_events [OF live add_doc] by blast
    moreover have "after (Add ctx i c w) = after ?run"
      using that(1,2) by (cases ?run) (simp add: Add_def validate_def split: sum.splits)
    ultimately show ?thesis
      by simp
  qed
  show ?thesis
    using sent by (simp add: fields strings_Join_Cons)
qed

text \<open>The two examples of the specification, and the request that goes out for the first.\<close>

theorem Add_wire_request_witness:
  "add_Tags (generateRequest
      \<lparr>URL = ''some_url.com'', Title = ''some_title'', Tags = [''a'', ''b''],
       AccessToken = ''access-to-ken''\<rparr> ''key'') = ''a,b''
   \<and> add_Tags (generateRequest
      \<lparr>URL = ''some_url.com'', Title = ''some_title'', Tags = [],
       AccessToken = ''access-to-ken''\<rparr> ''key'') = []
   \<and> take 1 (events (after (Add (LiveContext 0)
      \<lparr>URL = ''some_url.com'', Title = ''some_title'', Tags = [''a'', ''b''],
       AccessToken = ''access-to-ken''\<rparr> (newClient 200 ''/v3/add'' []) quiet))) =
      [RoundTrip
         \<lparr>Method = ''POST'', RequestURL = ''https://getpocket.com/v3/add'',
          ReqHeader = [''Content-Type'' \<mapsto> [''application/json; charset=UTF8'']],
          ReqBody = Some (JObject [(''url'', JString ''some_url.com''),
                      (''title'', JString ''some_title''),
                      (''tags'', JString ''a,b''),
                      (''tweet_id'', JNumber 0),
                      (''consumer_key'', JString ''key''),
                      (''access_token'', JString ''access-to-ken'')]),
          Ctx = LiveContext 0\<rparr>]"
  using Add_wire_request [of
      "\<lparr>URL = ''some_url.com'', Title = ''some_title'', Tags = [''a'', ''b''],
       AccessToken = ''access-to-ken''\<rparr>" "''key''" "LiveContext 0" quiet
      "newClient 200 ''/v3/add'' []"]
    Add_wire_request [of
      "\<lparr>URL = ''some_url.com'', Title = ''some_title'', Tags = [],
       AccessToken = ''access-to-ken''\<rparr>" "''key''"]
  by (simp add: quiet_def newClient_def postRequest_def endpointAdd_def)

text \<open>
  C8. \<open>NewClient\<close> fails exactly when the consumer key is empty, with the error
  \<open>Consumer key is empty\<close>; it never touches the world. For a key that is not empty
  it returns a client whose HTTP client has a timeout of five seconds (5000000000
  nanoseconds) and no transport of its own, and which holds the key.
\<close>

theorem NewClient_result:
  "((\<exists>e. fst (NewClient key w) = Inl e) = (key = []))
   \<and> (key = [] \<longrightarrow> fst (NewClient key w) = Inl (New ''Consumer key is empty''))
   \<and> snd (NewClient key w) = w
   \<and> (key \<noteq> [] \<longrightarrow>
        (\<exists>c. fst (NewClient key w) = Inr c \<and> Timeout (client c) = 5 * 1000000000
             \<and> Transport (client c) = None \<and> consumerKey c = key))"
  by (simp add: NewClient_def defaultTimeout_def time_Second_def)

text \<open>An empty key and the key of the tests.\<close>

theorem NewClient_result_witness:
  "fst (NewClient [] quiet) = Inl (New ''Consumer key is empty'')
   \<and> (\<exists>c. fst (NewClient ''key'' quiet) = Inr c \<and> Timeout (client c) = 5000000000
          \<and> consumerKey c = ''key'')
   \<and> events (snd (NewClient ''key'' quiet)) = []"
  using NewClient_result [of "[]" quiet] NewClient_result [of "''key''" quiet]
  by (auto simp: quiet_def)

text \<open>
  C9. No public operation changes the client: after \<open>GetRequestToken\<close>,
  \<open>GetAuthorizationURL\<close>, \<open>GetAccessToken\<close> and \<open>Add\<close>, on any input and in any
  world, the object behind the receiver is the one before the call, with the same HTTP
  client and the same consumer key.
\<close>

theorem Client_unchanged:
  "receiver (GetRequestToken ctx redirectUri c w) = c
   \<and> receiver (GetAuthorizationURL ctx requestToken redirectUrl c w) = c
   \<and> receiver (GetAccessToken ctx requestToken c w) = c
   \<and> receiver (Add ctx input c w) = c"
proof -
  have doHTTP: "receiver (doHTTP ctx endpoint p c w) = c" for endpoint p
    by (simp add: doHTTP_def Let_def split: sum.splits prod.splits option.splits)
  have "receiver (GetRequestToken ctx redirectUri c w) = c"
  proof (cases "doHTTP ctx endpointRequestToken
      (OfRequestToken \<lparr>rt_ConsumerKey = consumerKey c, rt_RedirectURI = redirectUri\<rparr>) c w")
    case (fields r c' w')
    with doHTTP [of endpointRequestToken
        "OfRequestToken \<lparr>rt_ConsumerKey = consumerKey c, rt_RedirectURI = redirectUri\<rparr>"]
    have "c' = c"
      by simp
    with fields show ?thesis
      by (simp add: GetRequestToken_def Let_def split: sum.splits)
  qed
  moreover have "receiver (GetAuthorizationURL ctx requestToken redirectUrl c w) = c"
    by (simp add: GetAuthorizationURL_def)
  moreover have "receiver (GetAccessToken ctx requestToken c w) = c"
  proof (cases "doHTTP ctx endpointAuthorize
      (OfAccessToken \<lparr>at_ConsumerKey = consumerKey c, at_Code = requestToken\<rparr>) c w")
    case (fields r c' w')
    with doHTTP [of endpointAuthorize
        "OfAccessToken \<lparr>at_ConsumerKey = consumerKey c, at_Code = requestToken\<rparr>"]
    have "c' = c"
      by simp
    with fields show ?thesis
      by (simp add: GetAccessToken_def Let_def split: sum.splits)
  qed
  moreover have "receiver (Add ctx input c w) = c"
  proof (cases "doHTTP ctx endpointAdd (OfAdd (generateRequest input (consumerKey c))) c w")
    case (fields r c' w')
    with doHTTP [of endpointAdd "OfAdd (generateRequest input (consumerKey c))"]
    have "c' = c"
      by simp
    with fields show ?thesis
      by (simp add: Add_def Let_def split: sum.splits option.splits)
  qed
  ultimately show ?thesis
    by simp
qed

text \<open>A successful call of each network operation leaves the stub client of the tests as it was.\<close>

theorem Client_unchanged_witness:
  "receiver (GetRequestToken (LiveContext 0) ''https://localhost''
      (newClient 200 ''/v3/oauth/request'' ''code=qwe-rty-123'') quiet) =
     newClient 200 ''/v3/oauth/request'' ''code=qwe-rty-123''
   \<and> receiver (GetAccessToken (LiveContext 0) ''12345-qwerty''
      (newClient 200 ''/v3/oauth/request'' ''code=qwe-rty-123'') quiet) =
     newClient 200 ''/v3/oauth/request'' ''code=qwe-rty-123''"
  using Client_unchanged [of "LiveContext 0" "''https://localhost''"
      "newClient 200 ''/v3/oauth/request'' ''code=qwe-rty-123''" quiet "''12345-qwerty''"]
  by simp

text \<open>
  C10. \<open>GetAuthorizationURL\<close> escapes nothing. For inputs that are not empty the
  returned URL is longer than the 65 bytes of the template's fixed text by exactly the
  lengths of the two inputs; the request token stands in it from byte 51 on, byte for
  byte, and the redirect URL is its end, byte for byte; so every byte of the inputs,
  an ampersand, an equals sign, a percent sign or a space included, is in the result
  as it was given.
\<close>

theorem GetAuthorizationURL_verbatim:
  assumes "requestToken \<noteq> []" and "redirectUrl \<noteq> []"
  shows "\<exists>u. returned (GetAuthorizationURL ctx requestToken redirectUrl c w) = Inr u
           \<and> length u = 65 + length requestToken + length redirectUrl
           \<and> take (length requestToken) (drop 51 u) = requestToken
           \<and> drop (65 + length requestToken) u = redirectUrl
           \<and> set requestToken \<union> set redirectUrl \<subseteq> set u"
proof -
  define pre where "pre = ''https://getpocket.com/auth/authorize?request_token=''"
  define mid where "mid = ''&redirect_uri=''"
  define u where "u = pre @ requestToken @ mid @ redirectUrl"
  have lens: "length pre = 51" "length mid = 14"
    by (simp_all add: pre_def mid_def)
  have "returned (GetAuthorizationURL ctx requestToken redirectUrl c w) = Inr u"
    using assms
    by (simp add: GetAuthorizationURL_def Sprintf_authorizeURL u_def pre_def mid_def)
  moreover have "length u = 65 + length requestToken + length redirectUrl"
    by (simp add: u_def lens)
  moreover have "take (length requestToken) (drop 51 u) = requestToken"
    by (simp add: u_def lens)
  moreover have "drop (65 + length requestToken) u = redirectUrl"
    by (simp add: u_def lens)
  moreover have "set requestToken \<union> set redirectUrl \<subseteq> set u"
    by (auto simp: u_def)
  ultimately show ?thesis
    by blast
qed

text \<open>Inputs that hold an ampersand, an equals sign, a percent sign and a space.\<close>

theorem GetAuthorizationURL_verbatim_witness:
  "\<exists>u. returned (GetAuthorizationURL (LiveContext 0) ''a&b=c d''
            ''https://localhost/?x=1&y=%20 z'' (newClient 200 [] []) quiet) = Inr u
      \<and> length u = 102
      \<and> take 7 (drop 51 u) = ''a&b=c d''
      \<and> drop 72 u = ''https://localhost/?x=1&y=%20 z''
      \<and> CHR ''&'' \<in> set u \<and> CHR ''='' \<in> set u \<and> CHR ''%'' \<in> set u
      \<and> CHR '' '' \<in> set u"
proof -
  have ne: "''a&b=c d'' \<noteq> []" "''https://localhost/?x=1&y=%20 z'' \<noteq> []"
    by simp_all
  have len: "length ''a&b=c d'' = 7" "length ''https://localhost/?x=1&y=%20 z'' = 30"
    by simp_all
  from GetAuthorizationURL_verbatim [OF ne, of "LiveContext 0" "newClient 200 [] []" quiet]
  show ?thesis
    unfolding len by auto
qed

end
